theory Spec2Isabelle
  imports Main
begin

section \<open>Strings\<close>

text \<open>
  A JavaScript string is modelled as a \<^typ>\<open>string\<close>, one \<^typ>\<open>char\<close> per code unit.
  \<open>toLowerCase\<close> is modelled on the ASCII range: the letters \<open>A\<close> to \<open>Z\<close> (codes 65 to
  90) get bit 5 set, every other code unit is left as it is. The concrete inputs used
  below are ASCII, where this is what \<open>String.prototype.toLowerCase\<close> computes.
\<close>

fun lower_char :: "char \<Rightarrow> char" where
  "lower_char (Char b0 b1 b2 b3 b4 b5 b6 b7) =
     (let n = (of_char (Char b0 b1 b2 b3 b4 b5 b6 b7) :: nat)
      in if 65 \<le> n \<and> n \<le> 90 then Char b0 b1 b2 b3 b4 True b6 b7
         else Char b0 b1 b2 b3 b4 b5 b6 b7)"

definition toLowerCase :: "string \<Rightarrow> string" where
  "toLowerCase s = map lower_char s"

text \<open>The relational comparison \<open>a < b\<close> of two strings: lexicographic on code units.\<close>

fun js_less :: "string \<Rightarrow> string \<Rightarrow> bool" where
  "js_less [] [] = False"
| "js_less [] (y # ys) = True"
| "js_less (x # xs) [] = False"
| "js_less (x # xs) (y # ys) =
     (if x = y then js_less xs ys else (of_char x :: nat) < of_char y)"



section \<open>The tables\<close>

text \<open>
  A table is the list of its items; the key of an item is computed from the item, as in
  the document store, where the key attributes are part of the item. \<open>put\<close> replaces the
  item that has the same key, \<open>delete\<close> removes it, a query filters. The claims below do
  not depend on the order in which a query lists its items.
\<close>

definition tbl_put :: "('a \<Rightarrow> 'k) \<Rightarrow> 'a \<Rightarrow> 'a list \<Rightarrow> 'a list" where
  "tbl_put key it t = it # filter (\<lambda>x. key x \<noteq> key it) t"


text \<open>
  \<open>update\<close> with a \<open>set\<close> expression edits the item that has the key; when the table has
  no such item, the store adds one, made of the key attributes and the attributes set.
\<close>

definition tbl_update :: "('a \<Rightarrow> 'k) \<Rightarrow> 'k \<Rightarrow> 'a \<Rightarrow> ('a \<Rightarrow> 'a) \<Rightarrow> 'a list \<Rightarrow> 'a list" where
  "tbl_update key k keyItem upd t =
     (if list_ex (\<lambda>x. key x = k) t then map (\<lambda>x. if key x = k then upd x else x) t
      else upd keyItem # t)"

text \<open>\<open>result.Items[0]\<close>: the first item of a query result, absent when there is none.\<close>

definition first_item :: "'a list \<Rightarrow> 'a option" where
  "first_item xs = (case xs of [] \<Rightarrow> None | x # _ \<Rightarrow> Some x)"

section \<open>Data model\<close>

datatype Role = BUDDY | HR | PRESIDENT | ADMIN

fun Role_value :: "Role \<Rightarrow> string" where
  "Role_value BUDDY = ''0''"
| "Role_value HR = ''1''"
| "Role_value PRESIDENT = ''2''"
| "Role_value ADMIN = ''3''"

text \<open>\<open>a > b\<close> on two roles compares their string values.\<close>

definition role_gt :: "Role \<Rightarrow> Role \<Rightarrow> bool" where
  "role_gt a b = js_less (Role_value b) (Role_value a)"

text \<open>The order of the roles as the specification gives it: BUDDY, HR, PRESIDENT, ADMIN.\<close>

fun spec_role_rank :: "Role \<Rightarrow> nat" where
  "spec_role_rank BUDDY = 0"
| "spec_role_rank HR = 1"
| "spec_role_rank PRESIDENT = 2"
| "spec_role_rank ADMIN = 3"

record Contractor =
  agreementStartDate :: string
  agreementEndDate :: string

record UnsavedUser = Contractor +
  email :: string
  firstName :: string
  lastName :: string
  faculty :: string
  role :: Role

record User = UnsavedUser +
  id_User :: string

record PasswordItem =
  userId :: string
  password :: string

record Note =
  id_Note :: string
  content :: string
  authorId :: string
  createdAt :: string
  updatedAt :: "string option"

text \<open>
  The \<open>mentees\<close> table holds mentee items and note items, and \<open>update\<close> writes single
  attributes, so its items are attribute maps. The attributes \<open>pk\<close> and \<open>sk\<close> are the key.
\<close>

type_synonym item = "string \<rightharpoonup> string"

definition item_key :: "item \<Rightarrow> string option \<times> string option" where
  "item_key x = (x ''pk'', x ''sk'')"

record Tables =
  users :: "User list"
  passwords :: "PasswordItem list"
  mentees :: "item list"

datatype error = TypeError | InvariantFailed string

record Decision =
  canDelete :: bool
  reason :: string

section \<open>mentee.server.ts\<close>

definition id2pk :: "string \<Rightarrow> string" where
  "id2pk i = ''Mentee#'' @ i"

definition id2NoteSk :: "string \<Rightarrow> string" where
  "id2NoteSk i = ''Note#'' @ i"

definition getMenteeById :: "string \<Rightarrow> Tables \<Rightarrow> item option" where
  "getMenteeById i db =
     (let key = id2pk i
      in first_item (filter (\<lambda>x. x ''pk'' = Some key \<and> x ''sk'' = Some key) (mentees db)))"

text \<open>The count of the index \<open>menteesByBuddyId\<close> at \<open>buddyId\<close>.\<close>

definition getMenteeCount :: "string \<Rightarrow> Tables \<Rightarrow> nat" where
  "getMenteeCount buddyId db =
     length (filter (\<lambda>x. x ''buddyId'' = Some buddyId) (mentees db))"

text \<open>
  \<open>cuid()\<close> is an input: the identifier it generated for this call. The object that is
  put is \<open>{pk, sk, id, status, ...newMentee, email}\<close>: the properties of \<open>newMentee\<close>
  are spread after the first four and win over them. Reading \<open>toLowerCase\<close> of a missing
  email is a \<open>TypeError\<close>, raised before the put; the failed \<open>invariant\<close> comes after it.
  The result is the value returned or the error raised, and the tables as they are then.
\<close>

definition createMentee :: "string \<Rightarrow> item \<Rightarrow> Tables \<Rightarrow> (error + item) \<times> Tables" where
  "createMentee cuid newMentee db =
     (let key = id2pk cuid;
          status = ''assigned''
      in case newMentee ''email'' of
           None \<Rightarrow> (Inl TypeError, db)
         | Some e \<Rightarrow>
             (let obj = ([''pk'' \<mapsto> key, ''sk'' \<mapsto> key, ''id'' \<mapsto> cuid, ''status'' \<mapsto> status]
                          ++ newMentee)(''email'' \<mapsto> toLowerCase e);
                  db' = db\<lparr>mentees := tbl_put item_key obj (mentees db)\<rparr>
              in case getMenteeById cuid db' of
                   None \<Rightarrow> (Inl (InvariantFailed ''Mentee not found, something went wrong''), db')
                 | Some mentee \<Rightarrow> (Inr mentee, db')))"




text \<open>The count of the index \<open>menteeByEmail\<close> at \<open>email\<close> is compared with zero.\<close>

definition isEmailUnique_mentee :: "string \<Rightarrow> Tables \<Rightarrow> bool" where
  "isEmailUnique_mentee e db =
     (length (filter (\<lambda>x. x ''email'' = Some e) (mentees db)) = 0)"

text \<open>\<open>new Date().toISOString()\<close> is an input of \<open>updateNote\<close>.\<close>

definition updateNote :: "string \<Rightarrow> string \<Rightarrow> string \<Rightarrow> string \<Rightarrow> Tables \<Rightarrow> Tables" where
  "updateNote nowISO menteeId noteId newContent db =
     (let k = id2pk menteeId; s = id2NoteSk noteId
      in db\<lparr>mentees := tbl_update item_key (Some k, Some s) [''pk'' \<mapsto> k, ''sk'' \<mapsto> s]
                          (\<lambda>x. x(''content'' \<mapsto> newContent, ''updatedAt'' \<mapsto> nowISO)) (mentees db)\<rparr>)"

definition canUserMutateNote :: "User \<Rightarrow> Note \<Rightarrow> bool" where
  "canUserMutateNote user note = (id_User user = authorId note \<or> role user \<noteq> BUDDY)"

section \<open>user.server.ts\<close>

definition email2UserId :: "string \<Rightarrow> string" where
  "email2UserId e = ''User#'' @ e"

definition getUserById :: "string \<Rightarrow> Tables \<Rightarrow> User option" where
  "getUserById i db = first_item (filter (\<lambda>u. id_User u = i) (users db))"

definition getUserByEmail :: "string \<Rightarrow> Tables \<Rightarrow> User option" where
  "getUserByEmail e db = (let userId = email2UserId e in getUserById userId db)"

definition getUserPasswordByEmail :: "string \<Rightarrow> Tables \<Rightarrow> PasswordItem option" where
  "getUserPasswordByEmail e db =
     (let uid = email2UserId e
      in first_item (filter (\<lambda>p. userId p = uid) (passwords db)))"

text \<open>
  \<open>bcrypt.hash(password, 10)\<close> is the parameter \<open>hash\<close>. The password is a separate
  argument; the other fields of the argument object are \<open>unsaved\<close>.
\<close>

definition createUser ::
  "(string \<Rightarrow> string) \<Rightarrow> UnsavedUser \<Rightarrow> string \<Rightarrow> Tables \<Rightarrow> (error + User) \<times> Tables" where
  "createUser hash unsaved pw db =
     (let lowerEmail = toLowerCase (email unsaved);
          uid = email2UserId lowerEmail;
          hashedPassword = hash pw;
          db1 = db\<lparr>passwords :=
                  tbl_put userId \<lparr>userId = uid, password = hashedPassword\<rparr> (passwords db)\<rparr>;
          db2 = db1\<lparr>users :=
                  tbl_put id_User
                    \<lparr>agreementStartDate = agreementStartDate unsaved,
                     agreementEndDate = agreementEndDate unsaved,
                     email = lowerEmail,
                     firstName = firstName unsaved,
                     lastName = lastName unsaved,
                     faculty = faculty unsaved,
                     role = role unsaved,
                     id_User = uid\<rparr> (users db1)\<rparr>
      in case getUserById uid db2 of
           None \<Rightarrow> (Inl (InvariantFailed
                      ''User not found after being created. This should not happen''), db2)
         | Some user \<Rightarrow> (Inr user, db2))"

definition isEmailUnique_user :: "string \<Rightarrow> Tables \<Rightarrow> bool" where
  "isEmailUnique_user e db = (case getUserByEmail e db of None \<Rightarrow> True | Some user \<Rightarrow> False)"

text \<open>\<open>updateUser\<close> returns what \<open>put\<close> returns, the item written.\<close>

definition updateUser :: "UnsavedUser \<Rightarrow> Tables \<Rightarrow> User \<times> Tables" where
  "updateUser updatedUser db =
     (let it = \<lparr>agreementStartDate = agreementStartDate updatedUser,
                agreementEndDate = agreementEndDate updatedUser,
                email = email updatedUser,
                firstName = firstName updatedUser,
                lastName = lastName updatedUser,
                faculty = faculty updatedUser,
                role = role updatedUser,
                id_User = email2UserId (email updatedUser)\<rparr>
      in (it, db\<lparr>users := tbl_put id_User it (users db)\<rparr>))"


text \<open>
  \<open>new Date(s)\<close> is the parameter \<open>parseDate\<close>: the time value in milliseconds, or
  \<open>None\<close> for an invalid date, whose time value is NaN. \<open>new Date()\<close> is the input
  \<open>now\<close>. A comparison with NaN is false.
\<close>

definition Date_gt :: "int option \<Rightarrow> int option \<Rightarrow> bool" where
  "Date_gt a b = (case a of None \<Rightarrow> False
                  | Some x \<Rightarrow> (case b of None \<Rightarrow> False | Some y \<Rightarrow> y < x))"

definition getBuddyById ::
  "(string \<Rightarrow> int option) \<Rightarrow> int \<Rightarrow> string \<Rightarrow> Tables \<Rightarrow> User option" where
  "getBuddyById parseDate now i db =
     (case getUserById i db of
        None \<Rightarrow> None
      | Some buddy \<Rightarrow>
          (let isBuddyActive = Date_gt (parseDate (agreementEndDate buddy)) (Some now)
           in if isBuddyActive then Some buddy else None))"

text \<open>
  \<open>getUserAssetCount\<close> belongs to the assets model and is a parameter here: the number
  of assets of a user id.
\<close>

definition canUserDeleteUser :: "(string \<Rightarrow> int) \<Rightarrow> User \<Rightarrow> User \<Rightarrow> Tables \<Rightarrow> Decision" where
  "canUserDeleteUser getUserAssetCount loggedInUser userToDelete db =
     (let isNotLoggedInUser = (id_User loggedInUser \<noteq> id_User userToDelete)
      in if \<not> isNotLoggedInUser
         then \<lparr>canDelete = False, reason = ''You can not delete yourself''\<rparr>
         else
           (let isNotAdmin = (role userToDelete \<noteq> ADMIN)
            in if \<not> isNotAdmin
               then \<lparr>canDelete = False, reason = ''You can not delete an admin''\<rparr>
               else
                 (let isHigher = role_gt (role loggedInUser) (role userToDelete)
                  in if \<not> isHigher
                     then \<lparr>canDelete = False,
                           reason = ''You can only delete users with a lower role than you''\<rparr>
                     else
                       (let hasMentees = (0 < getMenteeCount (id_User userToDelete) db)
                        in if hasMentees
                           then \<lparr>canDelete = False,
                                 reason = ''You can not delete a user with active mentees''\<rparr>
                           else
                             (let hasAssets = (0 < getUserAssetCount (id_User userToDelete))
                              in if hasAssets
                                 then \<lparr>canDelete = False,
                                       reason = ''You can not delete a user who has assets''\<rparr>
                                 else \<lparr>canDelete = True, reason = ''''\<rparr>)))))"


section \<open>Concrete states and inputs\<close>

definition empty_db :: Tables where
  "empty_db = \<lparr>users = [], passwords = [], mentees = []\<rparr>"

definition demo_hash :: "string \<Rightarrow> string" where
  "demo_hash pw = ''hash:'' @ pw"


definition no_assets :: "string \<Rightarrow> int" where
  "no_assets i = 0"

definition one_asset :: "string \<Rightarrow> int" where
  "one_asset i = 1"

definition mk_user :: "string \<Rightarrow> Role \<Rightarrow> string \<Rightarrow> User" where
  "mk_user e r endDate =
     \<lparr>agreementStartDate = ''2022-01-01'', agreementEndDate = endDate, email = e,
      firstName = ''Ann'', lastName = ''Lee'', faculty = ''FI'', role = r,
      id_User = ''User#'' @ e\<rparr>"

definition ann_form :: UnsavedUser where
  "ann_form =
     \<lparr>agreementStartDate = ''2022-01-01'', agreementEndDate = ''2023-01-01'',
      email = ''Ann@x.org'', firstName = ''Ann'', lastName = ''Lee'', faculty = ''FI'',
      role = BUDDY\<rparr>"

definition db_ann :: Tables where
  "db_ann =
     \<lparr>users = [mk_user ''ann@x.org'' BUDDY ''2023-01-01''],
      passwords = [\<lparr>userId = ''User#ann@x.org'', password = ''hash:pw''\<rparr>],
      mentees = []\<rparr>"

definition demo_parse :: "string \<Rightarrow> int option" where
  "demo_parse s = (if s = ''2023-01-01'' then Some 1672531200000
                   else if s = ''2030-01-01'' then Some 1893456000000 else None)"

definition bob_form :: item where
  "bob_form = [''email'' \<mapsto> ''Bob@x.org'', ''firstName'' \<mapsto> ''Bob'',
               ''buddyId'' \<mapsto> ''User#ann@x.org'']"

text \<open>An attribute of the item that a call returned, absent when the call failed.\<close>

definition result_attr :: "string \<Rightarrow> error + item \<Rightarrow> string option" where
  "result_attr a r = (case r of Inl e \<Rightarrow> None | Inr m \<Rightarrow> m a)"

text \<open>An attribute of the mentee's own item, absent when the table has no such item.\<close>

definition mentee_attr :: "string \<Rightarrow> string \<Rightarrow> Tables \<Rightarrow> string option" where
  "mentee_attr i a db = (case getMenteeById i db of None \<Rightarrow> None | Some m \<Rightarrow> m a)"


definition served_form :: item where
  "served_form = [''email'' \<mapsto> ''Bob@x.org'', ''firstName'' \<mapsto> ''Bob'',
                  ''buddyId'' \<mapsto> ''User#ann@x.org'', ''status'' \<mapsto> ''served'']"

definition m1_item :: item where
  "m1_item = [''pk'' \<mapsto> ''Mentee#m1'', ''sk'' \<mapsto> ''Mentee#m1'', ''id'' \<mapsto> ''m1'',
              ''status'' \<mapsto> ''assigned'', ''email'' \<mapsto> ''bob@x.org'',
              ''buddyId'' \<mapsto> ''User#ann@x.org'']"

definition n1_item :: item where
  "n1_item = [''pk'' \<mapsto> ''Mentee#m1'', ''sk'' \<mapsto> ''Note#n1'', ''id'' \<mapsto> ''n1'',
              ''content'' \<mapsto> ''called'', ''authorId'' \<mapsto> ''User#ann@x.org'',
              ''createdAt'' \<mapsto> ''2022-04-01T00:00:00.000Z'']"

definition db_m1 :: Tables where
  "db_m1 = \<lparr>users = [], passwords = [], mentees = [n1_item, m1_item]\<rparr>"

text \<open>A note item as \<open>updateNote\<close> writes it when the table has no item at its key.\<close>

definition orphan_note :: item where
  "orphan_note = [''pk'' \<mapsto> ''Mentee#m1'', ''sk'' \<mapsto> ''Note#n2'', ''content'' \<mapsto> ''hello'',
                  ''updatedAt'' \<mapsto> ''2022-05-01T00:00:00.000Z'']"

definition db_orphan :: Tables where
  "db_orphan = \<lparr>users = [], passwords = [], mentees = [orphan_note, n1_item, m1_item]\<rparr>"

definition ann_note :: Note where
  "ann_note =
     \<lparr>id_Note = ''n1'', content = ''called'', authorId = ''User#ann@x.org'',
      createdAt = ''2022-04-01T00:00:00.000Z'', updatedAt = None\<rparr>"

section \<open>Helper lemmas\<close>

lemma role_gt_rank: "role_gt a b \<longleftrightarrow> spec_role_rank b < spec_role_rank a"
  by (cases a; cases b) (simp_all add: role_gt_def)

lemma lower_char_idem: "lower_char (lower_char c) = lower_char c"
  by (cases c) (simp add: Let_def)

lemma toLowerCase_idem: "toLowerCase (toLowerCase s) = toLowerCase s"
  by (simp add: toLowerCase_def lower_char_idem)

lemma first_item_filter_None:
  "first_item (filter P xs) = None \<longleftrightarrow> (\<forall>x \<in> set xs. \<not> P x)"
  by (induction xs) (simp_all add: first_item_def)






subsection \<open>The rules of \<open>canUserDeleteUser\<close>, one by one\<close>

lemma cud_self:
  "id_User a = id_User t \<Longrightarrow>
   canUserDeleteUser g a t db = \<lparr>canDelete = False, reason = ''You can not delete yourself''\<rparr>"
  by (simp add: canUserDeleteUser_def)

lemma cud_admin:
  "id_User a \<noteq> id_User t \<Longrightarrow> role t = ADMIN \<Longrightarrow>
   canUserDeleteUser g a t db = \<lparr>canDelete = False, reason = ''You can not delete an admin''\<rparr>"
  by (simp add: canUserDeleteUser_def)

lemma cud_order:
  "id_User a \<noteq> id_User t \<Longrightarrow> role t \<noteq> ADMIN \<Longrightarrow>
   spec_role_rank (role a) \<le> spec_role_rank (role t) \<Longrightarrow>
   canUserDeleteUser g a t db =
     \<lparr>canDelete = False, reason = ''You can only delete users with a lower role than you''\<rparr>"
  by (simp add: canUserDeleteUser_def role_gt_rank)

lemma cud_mentees:
  "id_User a \<noteq> id_User t \<Longrightarrow> role t \<noteq> ADMIN \<Longrightarrow>
   spec_role_rank (role t) < spec_role_rank (role a) \<Longrightarrow>
   0 < getMenteeCount (id_User t) db \<Longrightarrow>
   canUserDeleteUser g a t db =
     \<lparr>canDelete = False, reason = ''You can not delete a user with active mentees''\<rparr>"
  by (simp add: canUserDeleteUser_def role_gt_rank)

lemma cud_assets:
  "id_User a \<noteq> id_User t \<Longrightarrow> role t \<noteq> ADMIN \<Longrightarrow>
   spec_role_rank (role t) < spec_role_rank (role a) \<Longrightarrow>
   getMenteeCount (id_User t) db = 0 \<Longrightarrow> 0 < g (id_User t) \<Longrightarrow>
   canUserDeleteUser g a t db =
     \<lparr>canDelete = False, reason = ''You can not delete a user who has assets''\<rparr>"
  by (simp add: canUserDeleteUser_def role_gt_rank)

lemma cud_ok:
  "id_User a \<noteq> id_User t \<Longrightarrow> role t \<noteq> ADMIN \<Longrightarrow>
   spec_role_rank (role t) < spec_role_rank (role a) \<Longrightarrow>
   getMenteeCount (id_User t) db = 0 \<Longrightarrow> g (id_User t) \<le> 0 \<Longrightarrow>
   canUserDeleteUser g a t db = \<lparr>canDelete = True, reason = ''''\<rparr>"
  by (simp add: canUserDeleteUser_def role_gt_rank)

lemma cud_canDelete_iff:
  "canDelete (canUserDeleteUser g a t db) \<longleftrightarrow>
     id_User a \<noteq> id_User t \<and> role t \<noteq> ADMIN \<and>
     spec_role_rank (role t) < spec_role_rank (role a) \<and>
     getMenteeCount (id_User t) db = 0 \<and> g (id_User t) \<le> 0"
  by (simp add: canUserDeleteUser_def role_gt_rank Let_def)

lemma cud_reason_iff:
  "reason (canUserDeleteUser g a t db) = '''' \<longleftrightarrow> canDelete (canUserDeleteUser g a t db)"
  by (simp add: canUserDeleteUser_def Let_def)

subsection \<open>Users\<close>

lemma createUser_result:
  "\<exists>u db'. createUser hash f pw db = (Inr u, db') \<and> getUserById (id_User u) db' = Some u
     \<and> email u = toLowerCase (email f)
     \<and> id_User u = ''User#'' @ toLowerCase (email u)"
  by (simp add: createUser_def Let_def getUserById_def tbl_put_def first_item_def
      email2UserId_def toLowerCase_idem)

lemma updateUser_result:
  "\<exists>u db'. updateUser f db = (u, db') \<and> getUserById (id_User u) db' = Some u
     \<and> email u = email f \<and> id_User u = ''User#'' @ email u"
  by (simp add: updateUser_def Let_def getUserById_def tbl_put_def first_item_def
      email2UserId_def)

lemma getUserPasswordByEmail_None:
  "getUserPasswordByEmail e db = None \<longleftrightarrow>
     (\<forall>p \<in> set (passwords db). userId p \<noteq> ''User#'' @ e)"
  by (simp add: getUserPasswordByEmail_def first_item_filter_None email2UserId_def)

subsection \<open>Mentees and notes\<close>


lemma getMenteeById_put:
  "obj ''pk'' = Some (id2pk i) \<Longrightarrow> obj ''sk'' = Some (id2pk i) \<Longrightarrow>
   getMenteeById i (db\<lparr>mentees := tbl_put item_key obj t\<rparr>) = Some obj"
  by (simp add: getMenteeById_def tbl_put_def first_item_def)



text \<open>
  The tables \<open>db_orphan\<close> are what \<open>updateNote\<close> leaves when it is called for a note
  that the table does not hold.
\<close>

lemma db_orphan_reached:
  "updateNote ''2022-05-01T00:00:00.000Z'' ''m1'' ''n2'' ''hello'' db_m1 = db_orphan"
  by (simp add: updateNote_def db_m1_def db_orphan_def orphan_note_def n1_item_def
      m1_item_def tbl_update_def item_key_def id2pk_def id2NoteSk_def Let_def)









section \<open>The claims\<close>

subsection \<open>C1: the rules of \<open>canUserDeleteUser\<close>\<close>

text \<open>
  C1. \<open>canUserDeleteUser\<close> evaluates five rules in a fixed order: (1) the actor's id equals
  the target's, (2) the target holds the ADMIN role, (3) the actor's role is not strictly
  greater than the target's, (4) the target has at least one assigned mentee, (5) the
  target owns at least one asset. It returns \<open>canDelete = false\<close> with the reason of the
  first rule violated, and \<open>canDelete = true\<close> with the empty reason if and only if all
  five rules pass. For every user \<open>u\<close>, \<open>canUserDeleteUser(u, u)\<close> gives the reason
  "You can not delete yourself". For an HR actor and an ADMIN target with another id the
  reason is that of rule (2), "You can not delete an admin", since rule (2) comes before
  the rule on the order of roles. For an ADMIN actor and a BUDDY target with another id,
  no mentees and no assets, it returns \<open>canDelete = true\<close>.
\<close>

theorem canUserDeleteUser_rules:
  "canUserDeleteUser g a a db = \<lparr>canDelete = False, reason = ''You can not delete yourself''\<rparr>
   \<and> (id_User a = id_User t \<longrightarrow>
        canUserDeleteUser g a t db =
          \<lparr>canDelete = False, reason = ''You can not delete yourself''\<rparr>)
   \<and> (id_User a \<noteq> id_User t \<and> role t = ADMIN \<longrightarrow>
        canUserDeleteUser g a t db =
          \<lparr>canDelete = False, reason = ''You can not delete an admin''\<rparr>)
   \<and> (id_User a \<noteq> id_User t \<and> role t \<noteq> ADMIN
        \<and> spec_role_rank (role a) \<le> spec_role_rank (role t) \<longrightarrow>
        canUserDeleteUser g a t db =
          \<lparr>canDelete = False,
           reason = ''You can only delete users with a lower role than you''\<rparr>)
   \<and> (id_User a \<noteq> id_User t \<and> role t \<noteq> ADMIN
        \<and> spec_role_rank (role t) < spec_role_rank (role a)
        \<and> 0 < getMenteeCount (id_User t) db \<longrightarrow>
        canUserDeleteUser g a t db =
          \<lparr>canDelete = False, reason = ''You can not delete a user with active mentees''\<rparr>)
   \<and> (id_User a \<noteq> id_User t \<and> role t \<noteq> ADMIN
        \<and> spec_role_rank (role t) < spec_role_rank (role a)
        \<and> getMenteeCount (id_User t) db = 0 \<and> 0 < g (id_User t) \<longrightarrow>
        canUserDeleteUser g a t db =
          \<lparr>canDelete = False, reason = ''You can not delete a user who has assets''\<rparr>)
   \<and> (canDelete (canUserDeleteUser g a t db) \<longleftrightarrow>
        id_User a \<noteq> id_User t \<and> role t \<noteq> ADMIN
        \<and> spec_role_rank (role t) < spec_role_rank (role a)
        \<and> getMenteeCount (id_User t) db = 0 \<and> g (id_User t) \<le> 0)
   \<and> (reason (canUserDeleteUser g a t db) = '''' \<longleftrightarrow> canDelete (canUserDeleteUser g a t db))
   \<and> (role a = HR \<and> role t = ADMIN \<and> id_User a \<noteq> id_User t \<longrightarrow>
        canUserDeleteUser g a t db =
          \<lparr>canDelete = False, reason = ''You can not delete an admin''\<rparr>)
   \<and> (role a = ADMIN \<and> role t = BUDDY \<and> id_User a \<noteq> id_User t
        \<and> getMenteeCount (id_User t) db = 0 \<and> g (id_User t) \<le> 0 \<longrightarrow>
        canUserDeleteUser g a t db = \<lparr>canDelete = True, reason = ''''\<rparr>)"
proof (intro conjI impI)
  show "canDelete (canUserDeleteUser g a t db) \<longleftrightarrow>
        id_User a \<noteq> id_User t \<and> role t \<noteq> ADMIN
        \<and> spec_role_rank (role t) < spec_role_rank (role a)
        \<and> getMenteeCount (id_User t) db = 0 \<and> g (id_User t) \<le> 0"
    by (rule cud_canDelete_iff)
  show "reason (canUserDeleteUser g a t db) = '''' \<longleftrightarrow> canDelete (canUserDeleteUser g a t db)"
    by (rule cud_reason_iff)
qed (simp_all add: cud_self cud_admin cud_order cud_mentees cud_assets cud_ok)

theorem canUserDeleteUser_rules_witness:
  "canUserDeleteUser no_assets (mk_user ''root@x.org'' ADMIN ''2023-01-01'')
       (mk_user ''root@x.org'' ADMIN ''2023-01-01'') empty_db
     = \<lparr>canDelete = False, reason = ''You can not delete yourself''\<rparr>
   \<and> canUserDeleteUser no_assets (mk_user ''hr@x.org'' HR ''2023-01-01'')
       (mk_user ''root@x.org'' ADMIN ''2023-01-01'') empty_db
     = \<lparr>canDelete = False, reason = ''You can not delete an admin''\<rparr>
   \<and> canUserDeleteUser no_assets (mk_user ''ann@x.org'' BUDDY ''2023-01-01'')
       (mk_user ''hr@x.org'' HR ''2023-01-01'') empty_db
     = \<lparr>canDelete = False,
        reason = ''You can only delete users with a lower role than you''\<rparr>
   \<and> canUserDeleteUser no_assets (mk_user ''root@x.org'' ADMIN ''2023-01-01'')
       (mk_user ''ann@x.org'' BUDDY ''2023-01-01'') db_m1
     = \<lparr>canDelete = False, reason = ''You can not delete a user with active mentees''\<rparr>
   \<and> canUserDeleteUser one_asset (mk_user ''root@x.org'' ADMIN ''2023-01-01'')
       (mk_user ''ann@x.org'' BUDDY ''2023-01-01'') empty_db
     = \<lparr>canDelete = False, reason = ''You can not delete a user who has assets''\<rparr>
   \<and> canUserDeleteUser no_assets (mk_user ''root@x.org'' ADMIN ''2023-01-01'')
       (mk_user ''ann@x.org'' BUDDY ''2023-01-01'') empty_db
     = \<lparr>canDelete = True, reason = ''''\<rparr>"
proof -
  let ?root = "mk_user ''root@x.org'' ADMIN ''2023-01-01''"
  let ?hr = "mk_user ''hr@x.org'' HR ''2023-01-01''"
  let ?ann = "mk_user ''ann@x.org'' BUDDY ''2023-01-01''"
  have count0: "getMenteeCount (id_User ?ann) empty_db = 0"
    by (simp add: getMenteeCount_def empty_db_def)
  have count1: "0 < getMenteeCount (id_User ?ann) db_m1"
    by (simp add: getMenteeCount_def db_m1_def mk_user_def n1_item_def m1_item_def)
  have self: "canUserDeleteUser no_assets ?root ?root empty_db
                = \<lparr>canDelete = False, reason = ''You can not delete yourself''\<rparr>"
    using canUserDeleteUser_rules [where a = ?root and t = ?root and g = no_assets
        and db = empty_db]
    by simp
  have admin: "canUserDeleteUser no_assets ?hr ?root empty_db
                = \<lparr>canDelete = False, reason = ''You can not delete an admin''\<rparr>"
    using canUserDeleteUser_rules [where a = ?hr and t = ?root and g = no_assets
        and db = empty_db]
    by (simp add: mk_user_def)
  have order: "canUserDeleteUser no_assets ?ann ?hr empty_db
                = \<lparr>canDelete = False,
                   reason = ''You can only delete users with a lower role than you''\<rparr>"
    using canUserDeleteUser_rules [where a = ?ann and t = ?hr and g = no_assets
        and db = empty_db]
    by (simp add: mk_user_def)
  have mentees: "canUserDeleteUser no_assets ?root ?ann db_m1
                = \<lparr>canDelete = False,
                   reason = ''You can not delete a user with active mentees''\<rparr>"
    using canUserDeleteUser_rules [where a = ?root and t = ?ann and g = no_assets
        and db = db_m1] count1
    by (simp add: mk_user_def)
  have assets: "canUserDeleteUser one_asset ?root ?ann empty_db
                = \<lparr>canDelete = False, reason = ''You can not delete a user who has assets''\<rparr>"
    using canUserDeleteUser_rules [where a = ?root and t = ?ann and g = one_asset
        and db = empty_db] count0
    by (simp add: mk_user_def one_asset_def)
  have ok: "canUserDeleteUser no_assets ?root ?ann empty_db = \<lparr>canDelete = True, reason = ''''\<rparr>"
    using canUserDeleteUser_rules [where a = ?root and t = ?ann and g = no_assets
        and db = empty_db] count0
    by (simp add: mk_user_def no_assets_def)
  from self admin order mentees assets ok show ?thesis
    by (intro conjI)
qed

text \<open>
  An HR actor and an ADMIN target: the reason returned is that of rule (2), not the
  reason of the rule on the order of roles.
\<close>

theorem canUserDeleteUser_HR_ADMIN_counterexample:
  "reason (canUserDeleteUser no_assets (mk_user ''hr@x.org'' HR ''2023-01-01'')
             (mk_user ''root@x.org'' ADMIN ''2023-01-01'') empty_db)
     = ''You can not delete an admin''
   \<and> reason (canUserDeleteUser no_assets (mk_user ''hr@x.org'' HR ''2023-01-01'')
               (mk_user ''root@x.org'' ADMIN ''2023-01-01'') empty_db)
       \<noteq> ''You can only delete users with a lower role than you''"
  by (simp add: canUserDeleteUser_def mk_user_def)

subsection \<open>C2: \<open>getUserByEmail\<close> and \<open>getUserById\<close>\<close>

text \<open>
  C2. For every email and every state of the tables, \<open>getUserByEmail(email)\<close> returns what
  \<open>getUserById("User#" + email)\<close> returns: the email is used as it is given. So it returns
  what \<open>getUserById("User#" + email.toLowerCase())\<close> returns when the email is already in
  lower case.
\<close>

theorem getUserByEmail_lookup:
  "getUserByEmail e db = getUserById (''User#'' @ e) db
   \<and> (toLowerCase e = e \<longrightarrow>
        getUserByEmail e db = getUserById (''User#'' @ toLowerCase e) db)"
  by (simp add: getUserByEmail_def email2UserId_def)

theorem getUserByEmail_lookup_witness:
  "toLowerCase ''ann@x.org'' = ''ann@x.org''
   \<and> getUserByEmail ''ann@x.org'' db_ann
       = getUserById (''User#'' @ toLowerCase ''ann@x.org'') db_ann
   \<and> getUserByEmail ''ann@x.org'' db_ann = Some (mk_user ''ann@x.org'' BUDDY ''2023-01-01'')"
proof -
  have low: "toLowerCase ''ann@x.org'' = ''ann@x.org''"
    by (simp add: toLowerCase_def)
  have found: "getUserById ''User#ann@x.org'' db_ann
                 = Some (mk_user ''ann@x.org'' BUDDY ''2023-01-01'')"
    by (simp add: getUserById_def db_ann_def mk_user_def first_item_def)
  from getUserByEmail_lookup [of "''ann@x.org''" db_ann] low found show ?thesis
    by simp
qed

text \<open>
  With the user stored under \<open>User#ann@x.org\<close>, the email \<open>Ann@x.org\<close> finds nothing by
  \<open>getUserByEmail\<close>, and the lookup of the lowercased id finds the user.
\<close>

theorem getUserByEmail_case_counterexample:
  "getUserByEmail ''Ann@x.org'' db_ann
     \<noteq> getUserById (''User#'' @ toLowerCase ''Ann@x.org'') db_ann"
  by (simp add: getUserByEmail_def getUserById_def db_ann_def mk_user_def email2UserId_def
      toLowerCase_def first_item_def)

subsection \<open>C3: the id of a user record written\<close>

text \<open>
  C3. Every user record written by \<open>createUser\<close> or by \<open>updateUser\<close> should have the id
  \<open>"User#"\<close> followed by the lowercased form of its email. \<open>createUser\<close> writes such a
  record (\<open>createUser_result\<close>). \<open>updateUser\<close> stores the email as it is given and builds
  the id from it (\<open>updateUser_result\<close>): called with the email \<open>Ann@x.org\<close> it writes a
  record with id \<open>User#Ann@x.org\<close>, which is not \<open>User#ann@x.org\<close>.
\<close>

theorem updateUser_keeps_case:
  "id_User (fst (updateUser ann_form empty_db)) = ''User#Ann@x.org''
   \<and> email (fst (updateUser ann_form empty_db)) = ''Ann@x.org''
   \<and> ''User#'' @ toLowerCase (email (fst (updateUser ann_form empty_db))) = ''User#ann@x.org''
   \<and> getUserById ''User#Ann@x.org'' (snd (updateUser ann_form empty_db))
       = Some (fst (updateUser ann_form empty_db))"
  by (simp add: updateUser_def ann_form_def empty_db_def email2UserId_def toLowerCase_def
      getUserById_def tbl_put_def first_item_def Let_def)

subsection \<open>C4: \<open>createMentee\<close>\<close>

text \<open>
  C4. For every input record that has an email and, as its type requires, none of the
  fields \<open>pk\<close>, \<open>sk\<close>, \<open>id\<close> and \<open>status\<close>, \<open>createMentee\<close> persists and returns a mentee
  whose status is \<open>assigned\<close>, whose email is the lowercased input email, whose id is the
  identifier generated for the call, and whose partition key and sort key are both
  \<open>"Mentee#" + id\<close>; every other field is the input's.
\<close>

theorem createMentee_typed_input:
  assumes "newMentee ''email'' = Some e"
    and "newMentee ''pk'' = None" and "newMentee ''sk'' = None"
    and "newMentee ''id'' = None" and "newMentee ''status'' = None"
  shows "\<exists>m db'. createMentee cuid newMentee db = (Inr m, db')
           \<and> getMenteeById cuid db' = Some m
           \<and> m ''status'' = Some ''assigned''
           \<and> m ''email'' = Some (toLowerCase e)
           \<and> m ''id'' = Some cuid
           \<and> m ''pk'' = Some (''Mentee#'' @ cuid) \<and> m ''sk'' = Some (''Mentee#'' @ cuid)
           \<and> (\<forall>a. a \<notin> {''pk'', ''sk'', ''id'', ''status'', ''email''} \<longrightarrow> m a = newMentee a)"
proof -
  let ?obj = "([''pk'' \<mapsto> id2pk cuid, ''sk'' \<mapsto> id2pk cuid, ''id'' \<mapsto> cuid,
                ''status'' \<mapsto> ''assigned''] ++ newMentee)(''email'' \<mapsto> toLowerCase e)"
  let ?db = "db\<lparr>mentees := tbl_put item_key ?obj (mentees db)\<rparr>"
  have pk: "?obj ''pk'' = Some (id2pk cuid)" and sk: "?obj ''sk'' = Some (id2pk cuid)"
    using assms by (simp_all add: map_add_def)
  have got: "getMenteeById cuid ?db = Some ?obj"
    using pk sk by (rule getMenteeById_put)
  have res: "createMentee cuid newMentee db = (Inr ?obj, ?db)"
    using assms(1) got by (simp add: createMentee_def Let_def)
  have attrs: "?obj ''status'' = Some ''assigned''" "?obj ''email'' = Some (toLowerCase e)"
    "?obj ''id'' = Some cuid"
    using assms by (simp_all add: map_add_def)
  have rest: "\<forall>a. a \<notin> {''pk'', ''sk'', ''id'', ''status'', ''email''} \<longrightarrow> ?obj a = newMentee a"
    by (auto simp: map_add_def split: option.splits)
  from res got attrs pk sk rest show ?thesis
    by (simp add: id2pk_def)
qed

theorem createMentee_typed_input_witness:
  "result_attr ''status'' (fst (createMentee ''ck1'' bob_form empty_db)) = Some ''assigned''
   \<and> result_attr ''email'' (fst (createMentee ''ck1'' bob_form empty_db)) = Some ''bob@x.org''
   \<and> mentee_attr ''ck1'' ''pk'' (snd (createMentee ''ck1'' bob_form empty_db))
       = Some ''Mentee#ck1''"
proof -
  have low: "toLowerCase ''Bob@x.org'' = ''bob@x.org''"
    by (simp add: toLowerCase_def)
  have "\<exists>m db'. createMentee ''ck1'' bob_form empty_db = (Inr m, db')
           \<and> getMenteeById ''ck1'' db' = Some m
           \<and> m ''status'' = Some ''assigned''
           \<and> m ''email'' = Some (toLowerCase ''Bob@x.org'')
           \<and> m ''id'' = Some ''ck1''
           \<and> m ''pk'' = Some (''Mentee#'' @ ''ck1'') \<and> m ''sk'' = Some (''Mentee#'' @ ''ck1'')
           \<and> (\<forall>a. a \<notin> {''pk'', ''sk'', ''id'', ''status'', ''email''} \<longrightarrow> m a = bob_form a)"
    by (rule createMentee_typed_input) (simp_all add: bob_form_def)
  then obtain m db' where "createMentee ''ck1'' bob_form empty_db = (Inr m, db')"
    and "getMenteeById ''ck1'' db' = Some m" and "m ''status'' = Some ''assigned''"
    and "m ''email'' = Some (toLowerCase ''Bob@x.org'')" and "m ''pk'' = Some ''Mentee#ck1''"
    by auto
  with low show ?thesis
    by (simp add: result_attr_def mentee_attr_def)
qed

text \<open>
  An input that carries a status: the spread of the input comes after the default, and
  the mentee returned and persisted has the input's status.
\<close>

theorem createMentee_input_status_counterexample:
  "result_attr ''status'' (fst (createMentee ''ck1'' served_form empty_db)) = Some ''served''
   \<and> mentee_attr ''ck1'' ''status'' (snd (createMentee ''ck1'' served_form empty_db))
       = Some ''served''
   \<and> ''served'' \<noteq> ''assigned''"
  by (simp add: result_attr_def mentee_attr_def createMentee_def served_form_def
      empty_db_def id2pk_def getMenteeById_def tbl_put_def first_item_def item_key_def
      Let_def)

subsection \<open>C5: \<open>verifyLogin\<close>\<close>



subsection \<open>C6: \<open>deleteMentee\<close>\<close>




subsection \<open>C7: \<open>isEmailUnique\<close> after a creation\<close>

text \<open>
  C7. Right after a user or a mentee with an email is created, \<open>isEmailUnique\<close> of that
  email should be false, whatever the casing. The email is stored in lower case and
  \<open>isEmailUnique\<close> looks the given string up as it is: after \<open>createUser\<close> with the email
  \<open>Ann@x.org\<close>, \<open>isEmailUnique("Ann@x.org")\<close> of the users is true, and after
  \<open>createMentee\<close> with the email \<open>Bob@x.org\<close>, \<open>isEmailUnique("Bob@x.org")\<close> of the
  mentees is true.
\<close>

theorem isEmailUnique_after_create:
  "fst (createUser demo_hash ann_form ''pw'' empty_db)
     = Inr (mk_user ''ann@x.org'' BUDDY ''2023-01-01'')
   \<and> isEmailUnique_user ''Ann@x.org'' (snd (createUser demo_hash ann_form ''pw'' empty_db))
   \<and> result_attr ''email'' (fst (createMentee ''ck1'' bob_form empty_db)) = Some ''bob@x.org''
   \<and> isEmailUnique_mentee ''Bob@x.org'' (snd (createMentee ''ck1'' bob_form empty_db))"
  by (simp add: createUser_def ann_form_def empty_db_def tbl_put_def mk_user_def
      toLowerCase_def email2UserId_def demo_hash_def getUserById_def first_item_def Let_def
      isEmailUnique_user_def getUserByEmail_def createMentee_def bob_form_def id2pk_def
      getMenteeById_def isEmailUnique_mentee_def result_attr_def item_key_def)

subsection \<open>C8: \<open>canUserMutateNote\<close>\<close>

text \<open>
  C8. For every user and every note, \<open>canUserMutateNote(user, note)\<close> is true if and only
  if the user's id equals the note's \<open>authorId\<close> or the user's role is above BUDDY. A
  BUDDY who authored the note gets true, a BUDDY who did not gets false, and every other
  role gets true whoever the author is.
\<close>

theorem canUserMutateNote_iff:
  "(canUserMutateNote u n \<longleftrightarrow>
      id_User u = authorId n \<or> spec_role_rank BUDDY < spec_role_rank (role u))
   \<and> (role u = BUDDY \<and> id_User u = authorId n \<longrightarrow> canUserMutateNote u n)
   \<and> (role u = BUDDY \<and> id_User u \<noteq> authorId n \<longrightarrow> \<not> canUserMutateNote u n)
   \<and> (role u \<noteq> BUDDY \<longrightarrow> canUserMutateNote u n)"
  by (cases "role u") (simp_all add: canUserMutateNote_def)

theorem canUserMutateNote_iff_witness:
  "canUserMutateNote (mk_user ''ann@x.org'' BUDDY ''2023-01-01'') ann_note
   \<and> \<not> canUserMutateNote (mk_user ''bea@x.org'' BUDDY ''2023-01-01'') ann_note
   \<and> canUserMutateNote (mk_user ''hr@x.org'' HR ''2023-01-01'') ann_note"
proof -
  have author: "canUserMutateNote (mk_user ''ann@x.org'' BUDDY ''2023-01-01'') ann_note"
    using canUserMutateNote_iff [of "mk_user ''ann@x.org'' BUDDY ''2023-01-01''" ann_note]
    by (simp add: mk_user_def ann_note_def)
  have other: "\<not> canUserMutateNote (mk_user ''bea@x.org'' BUDDY ''2023-01-01'') ann_note"
    using canUserMutateNote_iff [of "mk_user ''bea@x.org'' BUDDY ''2023-01-01''" ann_note]
    by (simp add: mk_user_def ann_note_def)
  have hr: "canUserMutateNote (mk_user ''hr@x.org'' HR ''2023-01-01'') ann_note"
    using canUserMutateNote_iff [of "mk_user ''hr@x.org'' HR ''2023-01-01''" ann_note]
    by (simp add: mk_user_def ann_note_def)
  from author other hr show ?thesis
    by (intro conjI)
qed

subsection \<open>C9: \<open>updateMenteeStatus\<close>\<close>



subsection \<open>C10: \<open>getBuddyById\<close>\<close>

text \<open>
  C10. \<open>getBuddyById(id)\<close> returns the user record only when the user exists and the
  \<open>agreementEndDate\<close>, parsed as a date, is strictly later than the current time. For a
  missing user and for a user whose agreement has ended, or ends exactly now, it returns
  absence. \<open>getUserById\<close> returns the record whatever the date.
\<close>

theorem getBuddyById_active:
  "(getBuddyById parse now i db = Some u \<longleftrightarrow>
      getUserById i db = Some u \<and> (\<exists>t. parse (agreementEndDate u) = Some t \<and> now < t))
   \<and> (getUserById i db = None \<longrightarrow> getBuddyById parse now i db = None)
   \<and> (getUserById i db = Some u \<and> parse (agreementEndDate u) = Some t \<and> t \<le> now
        \<longrightarrow> getBuddyById parse now i db = None)"
  by (auto simp: getBuddyById_def Date_gt_def Let_def split: option.splits)

theorem getBuddyById_active_witness:
  "getUserById ''User#ann@x.org'' db_ann = Some (mk_user ''ann@x.org'' BUDDY ''2023-01-01'')
   \<and> getBuddyById demo_parse 1672531199999 ''User#ann@x.org'' db_ann
       = Some (mk_user ''ann@x.org'' BUDDY ''2023-01-01'')
   \<and> getBuddyById demo_parse 1672531200000 ''User#ann@x.org'' db_ann = None
   \<and> getBuddyById demo_parse 1672531200001 ''User#ann@x.org'' db_ann = None
   \<and> getBuddyById demo_parse 0 ''User#zed@x.org'' db_ann = None"
proof -
  let ?ann = "mk_user ''ann@x.org'' BUDDY ''2023-01-01''"
  have found: "getUserById ''User#ann@x.org'' db_ann = Some ?ann"
    by (simp add: getUserById_def db_ann_def mk_user_def first_item_def)
  have missing: "getUserById ''User#zed@x.org'' db_ann = None"
    by (simp add: getUserById_def db_ann_def mk_user_def first_item_def)
  have ends: "demo_parse (agreementEndDate ?ann) = Some 1672531200000"
    by (simp add: demo_parse_def mk_user_def)
  from getBuddyById_active [where parse = demo_parse and now = 1672531199999
      and i = "''User#ann@x.org''" and db = db_ann and u = ?ann and t = 1672531200000]
    getBuddyById_active [where parse = demo_parse and now = 1672531200000
      and i = "''User#ann@x.org''" and db = db_ann and u = ?ann and t = 1672531200000]
    getBuddyById_active [where parse = demo_parse and now = 1672531200001
      and i = "''User#ann@x.org''" and db = db_ann and u = ?ann and t = 1672531200000]
    getBuddyById_active [where parse = demo_parse and now = 0
      and i = "''User#zed@x.org''" and db = db_ann and u = ?ann and t = 1672531200000]
    found missing ends
  show ?thesis
    by simp
qed

end
